theory Spec2Isabelle
  imports Complex_Main
begin

section \<open>AttenCalc: a gamma-ray attenuation calculator\<close>

text \<open>
  The development embeds \<^verbatim>\<open>CalcAtten.hh\<close> and \<^verbatim>\<open>CalcAtten.cc\<close>.

  \<^item> A C++ \<^verbatim>\<open>double\<close> is a \<^typ>\<open>real\<close>: comparison, subtraction, division,
    \<^verbatim>\<open>fabs\<close> and \<^verbatim>\<open>exp\<close> are the exact operations. Rounding, overflow and NaN are
    outside this model; the underflow of \<^verbatim>\<open>exp\<close> to 0.0 is written out in \<open>exp_double\<close>
    and \<open>Transmit_double\<close>, for the one statement that it decides.
  \<^item> A \<^verbatim>\<open>std::string\<close> is a \<^typ>\<open>string\<close>; a position of type \<^verbatim>\<open>size_type\<close> is a
    \<^typ>\<open>nat option\<close> with \<^const>\<open>None\<close> for \<^verbatim>\<open>string::npos\<close>.
  \<^item> The files the program can open are a partial map from paths to contents.
  \<^item> Every \<^verbatim>\<open>exit(EXIT_FAILURE)\<close>, every exception that leaves \<^verbatim>\<open>stof\<close> uncaught, and
    every read through an iterator outside its vector is a value of type \<open>error\<close>;
    functions return \<open>error + 'a\<close> with \<^const>\<open>Inl\<close> for the failure.
  \<^item> The library function \<^verbatim>\<open>std::stof\<close> is a parameter \<open>stof\<close> of every function that
    calls it: \<^const>\<open>None\<close> stands for the exception it throws (\<^verbatim>\<open>invalid_argument\<close> or
    \<^verbatim>\<open>out_of_range\<close>), which nothing catches.
\<close>

subsection \<open>Errors\<close>

datatype error =
    Usage
  | UnexpectedMacroFormat
  | UnexpectedDataFormat
  | NoDensityFound
  | FileNotOpen
  | StofThrew
  | OutOfBoundsRead

text \<open>The text written to \<^verbatim>\<open>cout\<close> before \<^verbatim>\<open>exit(EXIT_FAILURE)\<close>. The last two errors
  are not raised by a statement of the program: an uncaught exception ends in
  \<^verbatim>\<open>std::terminate\<close>, and a read outside a vector has no defined behaviour.\<close>

fun message :: "error \<Rightarrow> string option" where
  "message Usage = Some ''Usage: ./CalcAtten <macro>''"
| "message UnexpectedMacroFormat = Some ''Error: Unexpected macro format''"
| "message UnexpectedDataFormat = Some ''Error: Unexpected data file format''"
| "message NoDensityFound = Some ''Error: No density found in data file''"
| "message FileNotOpen = Some ''Error: File not open''"
| "message StofThrew = None"
| "message OutOfBoundsRead = None"

subsection \<open>Strings, positions and files\<close>

type_synonym pos = "nat option"

type_synonym files = "string \<Rightarrow> string option"

type_synonym stof_fn = "string \<Rightarrow> real option"

text \<open>\<^verbatim>\<open>s.find(c, from)\<close> for a one-character pattern (the program searches for
  \<^verbatim>\<open>" "\<close> and \<^verbatim>\<open>","\<close> only).\<close>

definition find_str :: "string \<Rightarrow> char \<Rightarrow> nat \<Rightarrow> pos" where
  "find_str s c from =
     (let r = drop from s
      in if c \<in> set r then Some (from + length (takeWhile (\<lambda>x. x \<noteq> c) r)) else None)"

text \<open>\<^verbatim>\<open>n + 1\<close> on a \<^verbatim>\<open>size_type\<close>: \<^verbatim>\<open>npos\<close> is the largest value, so
  \<^verbatim>\<open>npos + 1\<close> wraps to 0.\<close>

fun plus1 :: "pos \<Rightarrow> nat" where
  "plus1 None = 0"
| "plus1 (Some n) = n + 1"

text \<open>\<^verbatim>\<open>s.substr(p, count)\<close>. Every call of the program has \<open>p \<le> length s\<close>
  (\<open>p\<close> is 0, or one more than the position of a character of \<open>s\<close>), so
  \<^verbatim>\<open>out_of_range\<close> is never thrown.\<close>

fun substr :: "string \<Rightarrow> nat \<Rightarrow> pos \<Rightarrow> string" where
  "substr s p None = drop p s"
| "substr s p (Some k) = take k (drop p s)"

text \<open>The lines that successive \<^verbatim>\<open>getline\<close> calls deliver: text up to each newline, and
  a last unterminated line when it is not empty.\<close>

fun getlines_from :: "string \<Rightarrow> string \<Rightarrow> string list" where
  "getlines_from cur [] = (if cur = [] then [] else [rev cur])"
| "getlines_from cur (c # cs) =
     (if c = CHR 0x0A then rev cur # getlines_from [] cs else getlines_from (c # cur) cs)"

definition getlines :: "string \<Rightarrow> string list" where
  "getlines content = getlines_from [] content"

subsection \<open>\<^verbatim>\<open>Closest\<close>\<close>

text \<open>\<^verbatim>\<open>std::lower_bound\<close> and \<^verbatim>\<open>std::upper_bound\<close> on the whole vector, as offsets from
  \<^verbatim>\<open>vec.begin()\<close>: the first element that does not compare less than \<open>val\<close>, and the
  first element that compares greater than \<open>val\<close> (the vector's length when there is
  none), as the comment of \<^verbatim>\<open>Closest\<close> describes them. This is the result the library
  gives on a vector that is partitioned with respect to \<open>val\<close>, which every ascending
  vector is; \<^verbatim>\<open>Closest\<close> is called on the energies in file order and checks nothing.\<close>

definition lower_bound :: "real list \<Rightarrow> real \<Rightarrow> nat" where
  "lower_bound vec val = length (takeWhile (\<lambda>e. e < val) vec)"

definition upper_bound :: "real list \<Rightarrow> real \<Rightarrow> nat" where
  "upper_bound vec val = length (takeWhile (\<lambda>e. \<not> val < e) vec)"

text \<open>The two iterators of \<^verbatim>\<open>Closest\<close>, as signed offsets from \<^verbatim>\<open>vec.begin()\<close>.\<close>

definition Closest_lb :: "real list \<Rightarrow> real \<Rightarrow> int" where
  "Closest_lb vec val = int (lower_bound vec val) - 1"

definition Closest_ub :: "real list \<Rightarrow> real \<Rightarrow> int" where
  "Closest_ub vec val = int (upper_bound vec val)"

definition in_bounds :: "real list \<Rightarrow> int \<Rightarrow> bool" where
  "in_bounds vec i = (0 \<le> i \<and> i < int (length vec))"

text \<open>Reading the element at a signed offset: \<^verbatim>\<open>*it\<close> and \<^verbatim>\<open>vec[i]\<close>.\<close>

definition deref :: "real list \<Rightarrow> int \<Rightarrow> error + real" where
  "deref vec i = (if in_bounds vec i then Inr (vec ! nat i) else Inl OutOfBoundsRead)"

definition Closest :: "real list \<Rightarrow> real \<Rightarrow> error + int" where
  "Closest vec val =
     (let lb = Closest_lb vec val; ub = Closest_ub vec val
      in case deref vec lb of
           Inl e \<Rightarrow> Inl e
         | Inr l \<Rightarrow>
             (case deref vec ub of
                Inl e \<Rightarrow> Inl e
              | Inr u \<Rightarrow> Inr (if \<bar>u - val\<bar> > \<bar>l - val\<bar> then lb else ub)))"

subsection \<open>Reading a material's data file\<close>

definition DataFilePath :: "string \<Rightarrow> string" where
  "DataFilePath absorber = ''Data/'' @ absorber @ ''Data.txt''"

fun Density_loop :: "stof_fn \<Rightarrow> string list \<Rightarrow> error + real" where
  "Density_loop stof [] = Inl NoDensityFound"
| "Density_loop stof (line # rest) =
     (case find_str line CHR '' '' 0 of
        None \<Rightarrow> Inl UnexpectedDataFormat
      | Some n \<Rightarrow>
          (let lineType = substr line 0 (Some n);
               lineArg = substr line (n + 1) None
           in if lineType = ''Density(g/cm^3):''
              then (case stof lineArg of None \<Rightarrow> Inl StofThrew | Some d \<Rightarrow> Inr d)
              else Density_loop stof rest))"

definition Density :: "stof_fn \<Rightarrow> files \<Rightarrow> string \<Rightarrow> error + real" where
  "Density stof fs absorber =
     (case fs (DataFilePath absorber) of
        None \<Rightarrow> Inl FileNotOpen
      | Some content \<Rightarrow> Density_loop stof (getlines content))"

text \<open>The loop of \<^verbatim>\<open>MassAttenCoeff\<close> that fills \<^verbatim>\<open>Es\<close> and \<^verbatim>\<open>MACs\<close>. The third field
  \<^verbatim>\<open>lineArg2\<close> is computed and never used; its \<^verbatim>\<open>substr\<close> starts at 0 or just after a
  space of \<^verbatim>\<open>lineArg\<close>, so it cannot throw and is left out.\<close>

fun MAC_loop ::
  "stof_fn \<Rightarrow> string list \<Rightarrow> real list \<times> real list \<Rightarrow> error + (real list \<times> real list)" where
  "MAC_loop stof [] tab = Inr tab"
| "MAC_loop stof (line # rest) tab =
     (case find_str line CHR '' '' 0 of
        None \<Rightarrow> Inl UnexpectedDataFormat
      | Some n \<Rightarrow>
          (let lineType = substr line 0 (Some n);
               lineArg = substr line (n + 1) None
           in if lineType = ''MAC(MeV,cm^2/g,cm^2/g):''
              then
                (let m = find_str lineArg CHR '' '' 0;
                     lineArg0 = substr lineArg 0 m;
                     lineArg1 = substr lineArg (plus1 m) (find_str lineArg CHR '' '' (plus1 m))
                 in case stof lineArg0 of
                      None \<Rightarrow> Inl StofThrew
                    | Some e \<Rightarrow>
                        (case stof lineArg1 of
                           None \<Rightarrow> Inl StofThrew
                         | Some c \<Rightarrow> MAC_loop stof rest (fst tab @ [e], snd tab @ [c])))
              else MAC_loop stof rest tab))"

text \<open>The first half of \<^verbatim>\<open>MassAttenCoeff\<close>: open the file and fill the two vectors.\<close>

definition MAC_table :: "stof_fn \<Rightarrow> files \<Rightarrow> string \<Rightarrow> error + (real list \<times> real list)" where
  "MAC_table stof fs absorber =
     (case fs (DataFilePath absorber) of
        None \<Rightarrow> Inl FileNotOpen
      | Some content \<Rightarrow> MAC_loop stof (getlines content) ([], []))"

definition MassAttenCoeff :: "stof_fn \<Rightarrow> files \<Rightarrow> string \<Rightarrow> real \<Rightarrow> error + real" where
  "MassAttenCoeff stof fs absorber E =
     (case MAC_table stof fs absorber of
        Inl e \<Rightarrow> Inl e
      | Inr (Es, MACs) \<Rightarrow>
          (case Closest Es (E / 1000) of
             Inl e \<Rightarrow> Inl e
           | Inr i \<Rightarrow>
               (case deref Es i of
                  Inl e \<Rightarrow> Inl e
                | Inr _ \<Rightarrow> deref MACs i)))"

subsection \<open>\<^verbatim>\<open>Transmit\<close>\<close>

definition Transmit :: "stof_fn \<Rightarrow> files \<Rightarrow> string \<Rightarrow> string \<Rightarrow> real \<Rightarrow> error + real" where
  "Transmit stof fs absorber thickness E =
     (case stof thickness of
        None \<Rightarrow> Inl StofThrew
      | Some t \<Rightarrow>
          (case Density stof fs absorber of
             Inl e \<Rightarrow> Inl e
           | Inr rho \<Rightarrow>
               (case MassAttenCoeff stof fs absorber E of
                  Inl e \<Rightarrow> Inl e
                | Inr c \<Rightarrow> Inr (exp (- 1 * c * rho * t)))))"




subsection \<open>\<^verbatim>\<open>main\<close>\<close>

text \<open>The variables \<^verbatim>\<open>I\<close> and \<^verbatim>\<open>E\<close> of \<^verbatim>\<open>main\<close>, as the fields \<open>beam_I\<close> and
  \<open>beam_E\<close>; \<^verbatim>\<open>I_init\<close> is the constant 1.0.\<close>

record beam =
  beam_I :: real
  beam_E :: real

definition I_init :: real where
  "I_init = 1.0"

definition beam_init :: beam where
  "beam_init = \<lparr>beam_I = I_init, beam_E = 0.0\<rparr>"

text \<open>The body of the \<^verbatim>\<open>while (getline(ifs, line))\<close> loop: two consecutive \<^verbatim>\<open>if\<close>
  statements on \<^verbatim>\<open>cmdType\<close>.\<close>

definition macro_line :: "stof_fn \<Rightarrow> files \<Rightarrow> beam \<Rightarrow> string \<Rightarrow> error + beam" where
  "macro_line stof fs st line =
     (case find_str line CHR '' '' 0 of
        None \<Rightarrow> Inl UnexpectedMacroFormat
      | Some n \<Rightarrow>
          (let cmdType = substr line 0 (Some n);
               cmdArg = substr line (n + 1) None
           in case (if cmdType = ''Gamma(keV):''
                    then (case stof cmdArg of
                            None \<Rightarrow> Inl StofThrew
                          | Some e \<Rightarrow> Inr (st\<lparr>beam_E := e\<rparr>))
                    else Inr st) of
                Inl e \<Rightarrow> Inl e
              | Inr st1 \<Rightarrow>
                  (if cmdType = ''Shield(type,cm):''
                   then
                     (let m = find_str cmdArg CHR '','' 0;
                          cmdArg0 = substr cmdArg 0 m;
                          cmdArg1 = substr cmdArg (plus1 m) None
                      in case Transmit stof fs cmdArg0 cmdArg1 (beam_E st1) of
                           Inl e \<Rightarrow> Inl e
                         | Inr T \<Rightarrow> Inr (st1\<lparr>beam_I := beam_I st1 * T\<rparr>))
                   else Inr st1)))"

fun macro_loop :: "stof_fn \<Rightarrow> files \<Rightarrow> beam \<Rightarrow> string list \<Rightarrow> error + beam" where
  "macro_loop stof fs st [] = Inr st"
| "macro_loop stof fs st (line # rest) =
     (case macro_line stof fs st line of
        Inl e \<Rightarrow> Inl e
      | Inr st' \<Rightarrow> macro_loop stof fs st' rest)"

text \<open>\<^verbatim>\<open>main\<close> on the argument vector \<open>argv\<close> (\<^verbatim>\<open>argc\<close> is its length). \<^const>\<open>Inr\<close> is
  \<^verbatim>\<open>return 0\<close> with the final values of \<^verbatim>\<open>I\<close> and \<^verbatim>\<open>E\<close>. When the macro file is not
  open the \<^verbatim>\<open>if (ifs.is_open())\<close> block is skipped: it has no \<^verbatim>\<open>else\<close>.\<close>

definition main :: "stof_fn \<Rightarrow> files \<Rightarrow> string list \<Rightarrow> error + beam" where
  "main stof fs argv =
     (if length argv < 2 then Inl Usage
      else (case fs (argv ! 1) of
              None \<Rightarrow> Inr beam_init
            | Some content \<Rightarrow> macro_loop stof fs beam_init (getlines content)))"

text \<open>The exit status of the process: 0 for \<^verbatim>\<open>return 0\<close>, and not 0 for
  \<^verbatim>\<open>exit(EXIT_FAILURE)\<close>.\<close>

definition exits_nonzero :: "error + beam \<Rightarrow> bool" where
  "exits_nonzero r = (case r of Inl _ \<Rightarrow> True | Inr _ \<Rightarrow> False)"

subsection \<open>Notions used in the statements\<close>

text \<open>The label and the argument of a line, as the loop bodies split it with
  \<^verbatim>\<open>find\<close> and \<^verbatim>\<open>substr\<close>, and the two arguments of a shielding command.\<close>

definition label :: "string \<Rightarrow> string option" where
  "label line = map_option (\<lambda>n. substr line 0 (Some n)) (find_str line CHR '' '' 0)"

definition argument :: "string \<Rightarrow> string" where
  "argument line = substr line (plus1 (find_str line CHR '' '' 0)) None"

definition shield_material :: "string \<Rightarrow> string" where
  "shield_material line = substr (argument line) 0 (find_str (argument line) CHR '','' 0)"

definition shield_thickness :: "string \<Rightarrow> string" where
  "shield_thickness line =
     substr (argument line) (plus1 (find_str (argument line) CHR '','' 0)) None"

text \<open>The transmitted fractions of the shielding commands of a script, in order, when
  the script starts with beam energy \<open>e\<close>.\<close>

fun shield_fractions :: "stof_fn \<Rightarrow> files \<Rightarrow> real \<Rightarrow> string list \<Rightarrow> real list" where
  "shield_fractions stof fs e [] = []"
| "shield_fractions stof fs e (line # rest) =
     (let e' = (if label line = Some ''Gamma(keV):''
                then (case stof (argument line) of None \<Rightarrow> e | Some x \<Rightarrow> x)
                else e);
          ts = (if label line = Some ''Shield(type,cm):''
                then (case Transmit stof fs (shield_material line) (shield_thickness line) e' of
                        Inl _ \<Rightarrow> []
                      | Inr T \<Rightarrow> [T])
                else [])
      in ts @ shield_fractions stof fs e' rest)"

text \<open>The lines of the command script that \<^verbatim>\<open>main\<close> reads.\<close>

definition script_lines :: "files \<Rightarrow> string list \<Rightarrow> string list" where
  "script_lines fs argv = (case fs (argv ! 1) of None \<Rightarrow> [] | Some content \<Rightarrow> getlines content)"

text \<open>Index \<open>i\<close> is the largest index whose energy is less than or equal to \<open>val\<close>.\<close>

definition largest_index_le :: "real list \<Rightarrow> real \<Rightarrow> nat \<Rightarrow> bool" where
  "largest_index_le vec val i =
     (i < length vec \<and> vec ! i \<le> val \<and> (\<forall>j \<in> {..<length vec}. vec ! j \<le> val \<longrightarrow> j \<le> i))"

text \<open>Index \<open>i\<close> is the smallest index whose energy strictly exceeds \<open>val\<close>.\<close>

definition smallest_index_gt :: "real list \<Rightarrow> real \<Rightarrow> nat \<Rightarrow> bool" where
  "smallest_index_gt vec val i =
     (i < length vec \<and> val < vec ! i \<and> (\<forall>j \<in> {..<length vec}. val < vec ! j \<longrightarrow> i \<le> j))"

subsection \<open>A decimal reading of \<^verbatim>\<open>stof\<close>\<close>

text \<open>An instance of the parameter \<open>stof\<close> for concrete scenarios. It reads what
  \<^verbatim>\<open>std::stof\<close> reads from a plain decimal literal: leading white space, an optional
  sign, digits with an optional fraction, and it stops at the first character that does
  not continue the number. It fails when there is no digit. Exponents, hexadecimal
  literals, infinities and NaN are not covered.\<close>

definition isspace :: "char \<Rightarrow> bool" where
  "isspace c = (c \<in> {CHR '' '', CHR 0x09, CHR 0x0A, CHR 0x0B, CHR 0x0C, CHR 0x0D})"

definition isdigit :: "char \<Rightarrow> bool" where
  "isdigit c = (c \<in> set ''0123456789'')"

definition digit_value :: "char \<Rightarrow> nat" where
  "digit_value c = of_char c - 48"

fun digits_value :: "nat \<Rightarrow> string \<Rightarrow> nat" where
  "digits_value acc [] = acc"
| "digits_value acc (c # cs) = digits_value (10 * acc + digit_value c) cs"

definition stof_dec :: stof_fn where
  "stof_dec s =
     (let s1 = dropWhile isspace s;
          neg = (s1 \<noteq> [] \<and> hd s1 = CHR ''-'');
          s2 = (if s1 \<noteq> [] \<and> (hd s1 = CHR ''-'' \<or> hd s1 = CHR ''+'') then tl s1 else s1);
          ip = takeWhile isdigit s2;
          s3 = dropWhile isdigit s2;
          fp = (if s3 \<noteq> [] \<and> hd s3 = CHR ''.'' then takeWhile isdigit (tl s3) else [])
      in if ip = [] \<and> fp = [] then None
         else Some ((if neg then - 1 else 1) *
                    (real (digits_value 0 (ip @ fp)) / 10 ^ length fp)))"

text \<open>The scenario of the specification: a lead table with three records, and a script
  of one energy command and one layer.\<close>

definition lead_data :: string where
  "lead_data =
     ''Density(g/cm^3): 11.35'' @ [CHR 0x0A] @
     ''MAC(MeV,cm^2/g,cm^2/g): 0.500 0.1614 0.0913'' @ [CHR 0x0A] @
     ''MAC(MeV,cm^2/g,cm^2/g): 0.600 0.1130 0.0581'' @ [CHR 0x0A] @
     ''MAC(MeV,cm^2/g,cm^2/g): 0.800 0.0887 0.0464'' @ [CHR 0x0A]"

definition lead_files :: files where
  "lead_files =
     (\<lambda>_. None)
       (''Data/LeadData.txt'' := Some lead_data,
        ''macro.txt'' :=
          Some (''Gamma(keV): 662'' @ [CHR 0x0A] @ ''Shield(type,cm): Lead,1.0'' @ [CHR 0x0A]))"

text \<open>A second scenario: a script whose only line has no space, and a data file for a
  material \<^verbatim>\<open>Tin\<close> whose second line has no space.\<close>

definition tin_data :: string where
  "tin_data = ''Density(g/cm^3): 7.31'' @ [CHR 0x0A] @ ''MAC:0.5''"

definition broken_files :: files where
  "broken_files =
     (\<lambda>_. None)
       (''Data/TinData.txt'' := Some tin_data, ''macro.txt'' := Some ''Gamma(keV):662'')"

section \<open>Properties of \<^verbatim>\<open>Closest\<close>\<close>

subsection \<open>The two bounds on an ascending vector\<close>

lemma takeWhile_length_iff:
  fixes vec :: "real list"
  assumes srt: "sorted vec" and down: "\<And>a b. a \<le> b \<Longrightarrow> P b \<Longrightarrow> P a" and j: "j < length vec"
  shows "(j < length (takeWhile P vec)) = P (vec ! j)"
proof
  assume "j < length (takeWhile P vec)"
  then have "takeWhile P vec ! j \<in> set (takeWhile P vec)" by simp
  moreover have "takeWhile P vec ! j = vec ! j"
    using \<open>j < length (takeWhile P vec)\<close> by (rule takeWhile_nth)
  ultimately show "P (vec ! j)" by (auto dest: set_takeWhileD)
next
  assume p: "P (vec ! j)"
  have "\<And>i. i < Suc j \<Longrightarrow> P (vec ! i)"
  proof -
    fix i assume "i < Suc j"
    then have "vec ! i \<le> vec ! j" using srt j by (simp add: sorted_nth_mono)
    then show "P (vec ! i)" using p by (rule down)
  qed
  then have "Suc j \<le> length (takeWhile P vec)"
    using j by (intro length_takeWhile_less_P_nth) auto
  then show "j < length (takeWhile P vec)" by simp
qed

lemma lower_bound_iff:
  "sorted vec \<Longrightarrow> j < length vec \<Longrightarrow> (j < lower_bound vec val) = (vec ! j < val)"
  unfolding lower_bound_def by (rule takeWhile_length_iff) auto

lemma upper_bound_iff:
  "sorted vec \<Longrightarrow> j < length vec \<Longrightarrow> (j < upper_bound vec val) = (vec ! j \<le> val)"
  unfolding upper_bound_def using takeWhile_length_iff [of vec "\<lambda>e. \<not> val < e" j] by auto

lemma lower_bound_le_length: "lower_bound vec val \<le> length vec"
  by (simp add: lower_bound_def length_takeWhile_le)

lemma upper_bound_le_length: "upper_bound vec val \<le> length vec"
  by (simp add: upper_bound_def length_takeWhile_le)

lemma lower_bound_le_upper_bound: "sorted vec \<Longrightarrow> lower_bound vec val \<le> upper_bound vec val"
proof (rule ccontr)
  assume s: "sorted vec" and "\<not> lower_bound vec val \<le> upper_bound vec val"
  then have lt: "upper_bound vec val < lower_bound vec val" by simp
  then have len: "upper_bound vec val < length vec"
    using lower_bound_le_length [of vec val] by simp
  from lt have "vec ! upper_bound vec val < val" using lower_bound_iff [OF s len] by simp
  moreover have "\<not> vec ! upper_bound vec val \<le> val" using upper_bound_iff [OF s len, of val] by simp
  ultimately show False by simp
qed

lemma lb_in_bounds_iff:
  assumes "vec \<noteq> []" "sorted vec"
  shows "in_bounds vec (Closest_lb vec val) = (hd vec < val)"
proof -
  have 0: "0 < length vec" using assms by simp
  have "(0 < lower_bound vec val) = (vec ! 0 < val)" using lower_bound_iff [OF assms(2) 0] .
  then show ?thesis
    using lower_bound_le_length [of vec val] assms(1)
    by (auto simp: in_bounds_def Closest_lb_def hd_conv_nth)
qed

lemma ub_in_bounds_iff:
  assumes "vec \<noteq> []" "sorted vec"
  shows "in_bounds vec (Closest_ub vec val) = (val < last vec)"
proof -
  have l: "length vec - 1 < length vec" using assms by simp
  have "(length vec - 1 < upper_bound vec val) = (vec ! (length vec - 1) \<le> val)"
    using upper_bound_iff [OF assms(2) l] .
  moreover have "(upper_bound vec val < length vec) = (\<not> length vec - 1 < upper_bound vec val)"
    using upper_bound_le_length [of vec val] l by arith
  ultimately show ?thesis
    using assms(1) by (auto simp: in_bounds_def Closest_ub_def last_conv_nth)
qed

lemma Closest_in_range:
  assumes "vec \<noteq> []" "sorted vec" "hd vec < val" "val < last vec"
  shows "Closest vec val =
           Inr (if \<bar>vec ! nat (Closest_ub vec val) - val\<bar> > \<bar>vec ! nat (Closest_lb vec val) - val\<bar>
                then Closest_lb vec val else Closest_ub vec val)"
  using lb_in_bounds_iff [OF assms(1,2), of val] ub_in_bounds_iff [OF assms(1,2), of val] assms(3,4)
  by (simp add: Closest_def deref_def Let_def)

lemma Closest_out_of_range:
  assumes "vec \<noteq> []" "sorted vec" "\<not> (hd vec < val \<and> val < last vec)"
  shows "Closest vec val = Inl OutOfBoundsRead"
  using lb_in_bounds_iff [OF assms(1,2), of val] ub_in_bounds_iff [OF assms(1,2), of val] assms(3)
  by (auto simp add: Closest_def deref_def Let_def)

lemma untabulated_bounds_agree:
  assumes s: "sorted vec" and nt: "val \<notin> set vec"
  shows "upper_bound vec val = lower_bound vec val"
proof -
  have "takeWhile (\<lambda>e. \<not> val < e) vec = takeWhile (\<lambda>e. e < val) vec"
    using nt by (intro takeWhile_cong) (auto simp: not_less le_less)
  then show ?thesis by (simp add: upper_bound_def lower_bound_def)
qed

subsection \<open>Claims about the nearest-energy lookup\<close>

text \<open>
  \<^bold>\<open>C2\<close> (the code departs from the claim). The claim: for a non-empty ascending table,
  \<^verbatim>\<open>Closest\<close> returns the index of the tabulated energy nearest to the query, and for a
  query equal to a tabulated energy it returns that index. The comment of \<^verbatim>\<open>Closest\<close>
  says the same (``find entry closest to val in vec, return the index to that entry'').
  The code takes \<open>lb\<close> one before \<^verbatim>\<open>lower_bound\<close>, which for a tabulated query is one
  before the query's own index, and \<open>ub\<close> at \<^verbatim>\<open>upper_bound\<close>, one after it: the exact
  entry is never a candidate. On the table 0.8, 1, 1.25 MeV and the query 1 MeV
  (\<^verbatim>\<open>Gamma(keV): 1000\<close>) it returns index 0, the entry 0.8 MeV, although index 1
  holds the query itself.
\<close>

theorem Closest_tabulated_query_returns_neighbour:
  "Closest [0.8, 1, 1.25] 1 = Inr 0 \<and> [0.8, 1, 1.25 :: real] ! 1 = 1"
  by (simp add: Closest_def Closest_lb_def Closest_ub_def lower_bound_def upper_bound_def
      deref_def in_bounds_def)

text \<open>
  \<^bold>\<open>C4\<close>. For a non-empty ascending table, \<^verbatim>\<open>Closest\<close> reads one position before the
  first entry (offset \<open>-1\<close>) when the query is below or equal to the smallest entry, and
  one position past the last entry (offset \<open>length vec\<close>) when the query is above or
  equal to the largest entry. Both reads \<^verbatim>\<open>*lb\<close> and \<^verbatim>\<open>*ub\<close> are inside the vector
  exactly when the query lies strictly between the first and the last entry, and
  exactly then \<^verbatim>\<open>Closest\<close> returns an index.
\<close>

theorem Closest_reads_in_bounds_iff:
  assumes "vec \<noteq> []" and "sorted vec"
  shows "(val \<le> hd vec \<longrightarrow> Closest_lb vec val = - 1) \<and>
         (last vec \<le> val \<longrightarrow> Closest_ub vec val = int (length vec)) \<and>
         ((in_bounds vec (Closest_lb vec val) \<and> in_bounds vec (Closest_ub vec val)) =
            (hd vec < val \<and> val < last vec)) \<and>
         ((\<exists>i. Closest vec val = Inr i) = (hd vec < val \<and> val < last vec))"
proof -
  have lb: "in_bounds vec (Closest_lb vec val) = (hd vec < val)"
    using assms by (rule lb_in_bounds_iff)
  have ub: "in_bounds vec (Closest_ub vec val) = (val < last vec)"
    using assms by (rule ub_in_bounds_iff)
  have 1: "val \<le> hd vec \<longrightarrow> Closest_lb vec val = - 1"
    using lb lower_bound_le_length [of vec val] by (auto simp: in_bounds_def Closest_lb_def)
  have 2: "last vec \<le> val \<longrightarrow> Closest_ub vec val = int (length vec)"
    using ub upper_bound_le_length [of vec val] by (auto simp: in_bounds_def Closest_ub_def)
  have 3: "(\<exists>i. Closest vec val = Inr i) = (hd vec < val \<and> val < last vec)"
  proof (cases "hd vec < val \<and> val < last vec")
    case True
    then show ?thesis using Closest_in_range [OF assms, of val] by simp
  next
    case False
    then show ?thesis using Closest_out_of_range [OF assms, of val] by simp
  qed
  show ?thesis using lb ub 1 2 3 by simp
qed

theorem Closest_reads_in_bounds_iff_witness:
  "[0.5, 0.6, 0.8 :: real] \<noteq> [] \<and> sorted [0.5, 0.6, 0.8 :: real] \<and>
   Closest_lb [0.5, 0.6, 0.8] 0.5 = - 1 \<and> Closest_lb [0.5, 0.6, 0.8] 0 = - 1 \<and>
   Closest_ub [0.5, 0.6, 0.8] 0.8 = 3 \<and> Closest_ub [0.5, 0.6, 0.8] 2 = 3 \<and>
   in_bounds [0.5, 0.6, 0.8] (Closest_lb [0.5, 0.6, 0.8] 0.662) \<and>
   in_bounds [0.5, 0.6, 0.8] (Closest_ub [0.5, 0.6, 0.8] 0.662) \<and>
   \<not> in_bounds [0.5, 0.6, 0.8] (Closest_lb [0.5, 0.6, 0.8] 0.5) \<and>
   \<not> in_bounds [0.5, 0.6, 0.8] (Closest_ub [0.5, 0.6, 0.8] 0.8)"
  using Closest_reads_in_bounds_iff [of "[0.5, 0.6, 0.8]" "0.5"]
    Closest_reads_in_bounds_iff [of "[0.5, 0.6, 0.8]" 0]
    Closest_reads_in_bounds_iff [of "[0.5, 0.6, 0.8]" "0.8"]
    Closest_reads_in_bounds_iff [of "[0.5, 0.6, 0.8]" 2]
    Closest_reads_in_bounds_iff [of "[0.5, 0.6, 0.8]" "0.662"]
  by (simp add: in_bounds_def)

text \<open>
  \<^bold>\<open>C3\<close> (as stated, refuted). The claim takes \<open>lb\<close> to be the largest index whose
  energy is at most the query, equal to \<open>ub - 1\<close>, for every query. On the table 1, 2, 3
  and the query 2 the code has \<open>lb = 0\<close> and \<open>ub = 2\<close>, while the largest index with
  energy at most 2 is 1; on the query 0 no index has energy at most the query, \<open>lb\<close> is
  \<open>-1\<close> and the read through it is outside the vector.
\<close>

theorem Closest_lb_skips_tabulated_counterexample:
  "Closest_lb [1, 2, 3] 2 = 0 \<and> Closest_ub [1, 2, 3] 2 = 2 \<and>
   largest_index_le [1, 2, 3] 2 1 \<and> \<not> largest_index_le [1, 2, 3] 2 0 \<and>
   Closest_lb [1, 2, 3] 0 = - 1 \<and> Closest [1, 2, 3] 0 = Inl OutOfBoundsRead"
  by (simp add: Closest_def Closest_lb_def Closest_ub_def lower_bound_def upper_bound_def
      deref_def in_bounds_def largest_index_le_def lessThan_nat_numeral lessThan_Suc)

text \<open>
  \<^bold>\<open>C3\<close> (amended). For a non-empty ascending table and a query strictly between the
  first and the last tabulated energy that is not itself tabulated, \<open>lb = ub - 1\<close>,
  \<open>lb\<close> is the largest index whose energy is at most the query, \<open>ub\<close> is the smallest
  index whose energy exceeds it, and \<^verbatim>\<open>Closest\<close> returns \<open>lb\<close> when its energy is strictly
  nearer to the query and \<open>ub\<close> otherwise, so a tie returns \<open>ub\<close>.
\<close>

theorem Closest_selects_nearer_neighbour:
  assumes "vec \<noteq> []" and "sorted vec" and "hd vec < val" and "val < last vec"
    and "val \<notin> set vec"
  shows "Closest_lb vec val = Closest_ub vec val - 1 \<and>
         largest_index_le vec val (nat (Closest_lb vec val)) \<and>
         smallest_index_gt vec val (nat (Closest_ub vec val)) \<and>
         Closest vec val =
           Inr (if \<bar>vec ! nat (Closest_lb vec val) - val\<bar> < \<bar>vec ! nat (Closest_ub vec val) - val\<bar>
                then Closest_lb vec val else Closest_ub vec val)"
proof -
  have ne: "vec \<noteq> []" and srt: "sorted vec" and lo: "hd vec < val" and hi: "val < last vec"
    using assms by simp_all
  have same: "upper_bound vec val = lower_bound vec val"
    using srt assms(5) by (rule untabulated_bounds_agree)
  have lbin: "in_bounds vec (Closest_lb vec val)"
    using lb_in_bounds_iff [OF ne srt, of val] lo by simp
  have ubin: "in_bounds vec (Closest_ub vec val)"
    using ub_in_bounds_iff [OF ne srt, of val] hi by simp
  have pos: "0 < lower_bound vec val" using lbin by (simp add: in_bounds_def Closest_lb_def)
  have ublt: "upper_bound vec val < length vec" using ubin by (simp add: in_bounds_def Closest_ub_def)
  have L: "nat (Closest_lb vec val) = lower_bound vec val - 1"
    using pos by (simp add: Closest_lb_def nat_diff_distrib)
  have U: "nat (Closest_ub vec val) = upper_bound vec val" by (simp add: Closest_ub_def)
  have 1: "Closest_lb vec val = Closest_ub vec val - 1"
    by (simp add: Closest_lb_def Closest_ub_def same)
  have Llen: "lower_bound vec val - 1 < length vec" using ublt same by simp
  have "vec ! (lower_bound vec val - 1) < val"
    using lower_bound_iff [OF srt Llen, of val] pos by simp
  moreover have "\<And>j. j < length vec \<Longrightarrow> vec ! j \<le> val \<Longrightarrow> j \<le> lower_bound vec val - 1"
    using upper_bound_iff [OF srt, of _ val] same by fastforce
  ultimately have 2: "largest_index_le vec val (nat (Closest_lb vec val))"
    unfolding largest_index_le_def L using Llen by auto
  have "val < vec ! upper_bound vec val"
    using upper_bound_iff [OF srt ublt, of val] by simp
  moreover have "\<And>j. j < length vec \<Longrightarrow> val < vec ! j \<Longrightarrow> upper_bound vec val \<le> j"
    using upper_bound_iff [OF srt, of _ val] by fastforce
  ultimately have 3: "smallest_index_gt vec val (nat (Closest_ub vec val))"
    unfolding smallest_index_gt_def U using ublt by auto
  have 4: "Closest vec val =
           Inr (if \<bar>vec ! nat (Closest_lb vec val) - val\<bar> < \<bar>vec ! nat (Closest_ub vec val) - val\<bar>
                then Closest_lb vec val else Closest_ub vec val)"
    using ne srt lo hi by (rule Closest_in_range)
  show ?thesis using 1 2 3 4 by simp
qed

theorem Closest_selects_nearer_neighbour_witness:
  "[0.5, 0.6, 0.8 :: real] \<noteq> [] \<and> sorted [0.5, 0.6, 0.8 :: real] \<and>
   hd [0.5, 0.6, 0.8 :: real] < 0.662 \<and>
   0.662 < last [0.5, 0.6, 0.8 :: real] \<and> 0.662 \<notin> set [0.5, 0.6, 0.8 :: real] \<and>
   Closest_lb [0.5, 0.6, 0.8] 0.662 = 1 \<and> Closest_ub [0.5, 0.6, 0.8] 0.662 = 2 \<and>
   largest_index_le [0.5, 0.6, 0.8] 0.662 1 \<and>
   smallest_index_gt [0.5, 0.6, 0.8] 0.662 2 \<and>
   Closest [0.5, 0.6, 0.8] 0.662 = Inr 1 \<and>
   Closest [1, 3] 2 = Inr 1"
  using Closest_selects_nearer_neighbour [of "[0.5, 0.6, 0.8]" "0.662"]
    Closest_selects_nearer_neighbour [of "[1, 3]" 2]
  by (simp add: Closest_lb_def Closest_ub_def lower_bound_def upper_bound_def)

section \<open>Properties of the file readers, \<^verbatim>\<open>Transmit\<close> and \<^verbatim>\<open>main\<close>\<close>

subsection \<open>Lines, labels and the loops\<close>

lemma find_str_None_iff: "(find_str line c 0 = None) = (c \<notin> set line)"
  by (simp add: find_str_def)

lemma find_str_Some:
  assumes "find_str s c from = Some n"
  shows "from \<le> n \<and> n < length s \<and> s ! n = c"
proof -
  let ?r = "drop from s"
  let ?k = "length (takeWhile (\<lambda>x. x \<noteq> c) ?r)"
  have mem: "c \<in> set ?r" and n: "n = from + ?k"
    using assms by (auto simp: find_str_def Let_def split: if_splits)
  have "takeWhile (\<lambda>x. x \<noteq> c) ?r \<noteq> ?r"
    using mem by (auto simp: takeWhile_eq_all_conv)
  then have k: "?k < length ?r"
    using length_takeWhile_le [of "\<lambda>x. x \<noteq> c" ?r]
    by (metis le_neq_implies_less takeWhile_eq_take take_all_iff order_refl)
  then have "\<not> (?r ! ?k \<noteq> c)" by (rule nth_length_takeWhile)
  moreover have "?r ! ?k = s ! n" using k n by (simp add: add.commute)
  ultimately show ?thesis using k n by auto
qed

lemma label_None_iff: "(label line = None) = (CHR '' '' \<notin> set line)"
  by (simp add: label_def find_str_None_iff)

lemma macro_line_no_space:
  "CHR '' '' \<notin> set line \<Longrightarrow> macro_line stof fs st line = Inl UnexpectedMacroFormat"
  using find_str_None_iff [of line "CHR '' ''"] by (simp add: macro_line_def)

lemma macro_line_gamma:
  assumes "label line = Some ''Gamma(keV):''"
  shows "macro_line stof fs st line =
           (case stof (argument line) of
              None \<Rightarrow> Inl StofThrew
            | Some e \<Rightarrow> Inr (st\<lparr>beam_E := e\<rparr>))"
  using assms
  by (auto simp: macro_line_def label_def argument_def Let_def split: option.splits)

lemma macro_line_shield:
  assumes "label line = Some ''Shield(type,cm):''"
  shows "macro_line stof fs st line =
           (case Transmit stof fs (shield_material line) (shield_thickness line) (beam_E st) of
              Inl e \<Rightarrow> Inl e
            | Inr T \<Rightarrow> Inr (st\<lparr>beam_I := beam_I st * T\<rparr>))"
  using assms
  by (auto simp: macro_line_def label_def argument_def shield_material_def shield_thickness_def
      Let_def split: option.splits)

lemma macro_line_other:
  assumes "label line = Some l" and "l \<noteq> ''Gamma(keV):''" and "l \<noteq> ''Shield(type,cm):''"
  shows "macro_line stof fs st line = Inr st"
  using assms by (auto simp: macro_line_def label_def Let_def split: option.splits)

lemma macro_loop_append:
  "macro_loop stof fs st (xs @ ys) =
     (case macro_loop stof fs st xs of
        Inl e \<Rightarrow> Inl e
      | Inr st' \<Rightarrow> macro_loop stof fs st' ys)"
  by (induction xs arbitrary: st) (auto split: sum.splits)

lemma MAC_loop_append:
  "MAC_loop stof (xs @ ys) tab =
     (case MAC_loop stof xs tab of
        Inl e \<Rightarrow> Inl e
      | Inr tab' \<Rightarrow> MAC_loop stof ys tab')"
  by (induction xs arbitrary: tab) (auto simp: Let_def split: sum.splits option.splits)

lemma MAC_loop_no_space:
  "CHR '' '' \<notin> set line \<Longrightarrow> MAC_loop stof (line # rest) tab = Inl UnexpectedDataFormat"
  using find_str_None_iff [of line "CHR '' ''"] by simp

lemma MAC_loop_lengths:
  "MAC_loop stof lines tab = Inr tab' \<Longrightarrow> length (fst tab) = length (snd tab) \<Longrightarrow>
   length (fst tab') = length (snd tab')"
proof (induction lines arbitrary: tab)
  case Nil
  then show ?case by simp
next
  case (Cons line rest)
  show ?case
  proof (cases "find_str line CHR '' '' 0")
    case None
    then show ?thesis using Cons.prems by simp
  next
    case (Some n)
    show ?thesis
    proof (cases "substr line 0 (Some n) = ''MAC(MeV,cm^2/g,cm^2/g):''")
      case True
      then show ?thesis
        using Cons.prems Some Cons.IH
        by (auto simp: Let_def split: option.splits)
    next
      case False
      then show ?thesis using Cons.prems Some Cons.IH by (auto simp: Let_def)
    qed
  qed
qed

lemma Closest_Inr_in_bounds: "Closest vec val = Inr i \<Longrightarrow> in_bounds vec i"
  by (auto simp: Closest_def deref_def Let_def split: if_splits)

lemma MassAttenCoeff_via_Closest:
  assumes "MAC_table stof fs material = Inr tab"
  shows "MassAttenCoeff stof fs material En =
           (case Closest (fst tab) (En / 1000) of
              Inl e \<Rightarrow> Inl e
            | Inr i \<Rightarrow> Inr (snd tab ! nat i))"
proof -
  obtain Es MACs where tab: "tab = (Es, MACs)" by (cases tab)
  have len: "length Es = length MACs"
  proof (cases "fs (DataFilePath material)")
    case None
    then show ?thesis using assms by (simp add: MAC_table_def)
  next
    case (Some content)
    then have "MAC_loop stof (getlines content) ([], []) = Inr (Es, MACs)"
      using assms tab by (simp add: MAC_table_def)
    from MAC_loop_lengths [OF this] show ?thesis by simp
  qed
  show ?thesis
  proof (cases "Closest Es (En / 1000)")
    case (Inl e)
    then show ?thesis using assms tab by (simp add: MassAttenCoeff_def)
  next
    case (Inr i)
    then have b: "in_bounds Es i" by (rule Closest_Inr_in_bounds)
    then have "in_bounds MACs i" using len by (simp add: in_bounds_def)
    then show ?thesis using Inr assms tab b by (simp add: MassAttenCoeff_def deref_def)
  qed
qed

lemma Transmit_via_Closest:
  "Transmit stof fs material thickness En =
     (case stof thickness of
        None \<Rightarrow> Inl StofThrew
      | Some t \<Rightarrow>
          (case Density stof fs material of
             Inl e \<Rightarrow> Inl e
           | Inr rho \<Rightarrow>
               (case MAC_table stof fs material of
                  Inl e \<Rightarrow> Inl e
                | Inr tab \<Rightarrow>
                    (case Closest (fst tab) (En / 1000) of
                       Inl e \<Rightarrow> Inl e
                     | Inr i \<Rightarrow> Inr (exp (- (snd tab ! nat i * rho * t)))))))"
proof (cases "MAC_table stof fs material")
  case (Inl e)
  then have "MassAttenCoeff stof fs material En = Inl e" by (simp add: MassAttenCoeff_def)
  then show ?thesis using Inl by (simp add: Transmit_def split: option.splits sum.splits)
next
  case (Inr tab)
  show ?thesis
    using MassAttenCoeff_via_Closest [OF Inr, of En] Inr
    by (simp add: Transmit_def split: option.splits sum.splits)
qed

lemma Closest_lb_below_positive:
  assumes "\<forall>e \<in> set Es. 0 < e"
  shows "Closest_lb Es 0 = - 1 \<and> Closest Es 0 = Inl OutOfBoundsRead"
proof -
  have "takeWhile (\<lambda>x. x < 0) Es = []" using assms by (cases Es) auto
  then have lb: "Closest_lb Es 0 = - 1" by (simp add: Closest_lb_def lower_bound_def)
  then show ?thesis by (simp add: Closest_def deref_def in_bounds_def)
qed

lemma Density_loop_no_space:
  assumes "CHR '' '' \<notin> set line"
    and "\<forall>l \<in> set pre. label l \<noteq> None \<and> label l \<noteq> Some ''Density(g/cm^3):''"
  shows "Density_loop stof (pre @ line # rest) = Inl UnexpectedDataFormat"
  using assms(2)
proof (induction pre)
  case Nil
  then show ?case using assms(1) find_str_None_iff [of line "CHR '' ''"] by simp
next
  case (Cons p pre)
  then show ?case
    by (cases "find_str p CHR '' '' 0") (auto simp: label_def Let_def)
qed

lemma macro_loop_energy:
  "\<forall>l \<in> set pre. label l \<noteq> Some ''Gamma(keV):'' \<Longrightarrow>
   macro_loop stof fs st pre = Inr st' \<Longrightarrow> beam_E st' = beam_E st"
proof (induction pre arbitrary: st)
  case Nil
  then show ?case by simp
next
  case (Cons line rest)
  from Cons.prems(2) obtain s1 where s1: "macro_line stof fs st line = Inr s1"
    and rest: "macro_loop stof fs s1 rest = Inr st'"
    by (auto split: sum.splits)
  have ng: "label line \<noteq> Some ''Gamma(keV):''" using Cons.prems(1) by simp
  have "beam_E s1 = beam_E st"
  proof (cases "label line")
    case None
    then show ?thesis using s1 macro_line_no_space [of line] by (simp add: label_None_iff)
  next
    case (Some l)
    show ?thesis
    proof (cases "l = ''Shield(type,cm):''")
      case True
      then show ?thesis
        using s1 Some macro_line_shield [of line stof fs st] by (auto split: sum.splits)
    next
      case False
      then show ?thesis using s1 Some ng macro_line_other [of line l stof fs st] by simp
    qed
  qed
  moreover have "beam_E st' = beam_E s1"
    using Cons.IH [OF _ rest] Cons.prems(1) by simp
  ultimately show ?case by simp
qed

lemma macro_loop_intensity:
  "macro_loop stof fs st lines = Inr st' \<Longrightarrow>
   beam_I st' = beam_I st * prod_list (shield_fractions stof fs (beam_E st) lines)"
proof (induction lines arbitrary: st)
  case Nil
  then show ?case by simp
next
  case (Cons line rest)
  from Cons.prems obtain s1 where s1: "macro_line stof fs st line = Inr s1"
    and rest: "macro_loop stof fs s1 rest = Inr st'"
    by (auto split: sum.splits)
  have ih: "beam_I st' = beam_I s1 * prod_list (shield_fractions stof fs (beam_E s1) rest)"
    using rest by (rule Cons.IH)
  show ?case
  proof (cases "label line")
    case None
    then show ?thesis using s1 macro_line_no_space [of line] by (simp add: label_None_iff)
  next
    case (Some l)
    consider (gamma) "l = ''Gamma(keV):''" | (shield) "l = ''Shield(type,cm):''"
      | (other) "l \<noteq> ''Gamma(keV):''" "l \<noteq> ''Shield(type,cm):''"
      by blast
    then show ?thesis
    proof cases
      case gamma
      then show ?thesis
        using s1 Some ih macro_line_gamma [of line stof fs st]
        by (auto simp: Let_def split: option.splits)
    next
      case shield
      then show ?thesis
        using s1 Some ih macro_line_shield [of line stof fs st]
        by (auto simp: Let_def split: sum.splits)
    next
      case other
      then show ?thesis
        using s1 Some ih macro_line_other [of line l stof fs st] by (simp add: Let_def)
    qed
  qed
qed

lemma shield_fractions_no_shield:
  "\<forall>l \<in> set lines. label l \<noteq> Some ''Shield(type,cm):'' \<Longrightarrow> shield_fractions stof fs e lines = []"
  by (induction lines arbitrary: e) (simp_all add: Let_def)

subsection \<open>The lead scenario, evaluated\<close>

lemma stof_dec_1: "stof_dec ''1.0'' = Some 1"
  by (simp add: stof_dec_def isspace_def isdigit_def digit_value_def)

lemma stof_dec_2: "stof_dec ''2.0'' = Some 2"
  by (simp add: stof_dec_def isspace_def isdigit_def digit_value_def)

lemma stof_dec_662: "stof_dec ''662'' = Some 662"
  by (simp add: stof_dec_def isspace_def isdigit_def digit_value_def)

lemma lead_lines:
  "getlines lead_data =
     [''Density(g/cm^3): 11.35'',
      ''MAC(MeV,cm^2/g,cm^2/g): 0.500 0.1614 0.0913'',
      ''MAC(MeV,cm^2/g,cm^2/g): 0.600 0.1130 0.0581'',
      ''MAC(MeV,cm^2/g,cm^2/g): 0.800 0.0887 0.0464'']"
  by (simp add: getlines_def lead_data_def)

lemma lead_density: "Density stof_dec lead_files ''Lead'' = Inr 11.35"
  by (simp add: Density_def lead_files_def DataFilePath_def lead_lines find_str_def
      stof_dec_def isspace_def isdigit_def digit_value_def)

lemma lead_table:
  "MAC_table stof_dec lead_files ''Lead'' = Inr ([0.5, 0.6, 0.8], [0.1614, 0.113, 0.0887])"
  by (simp add: MAC_table_def lead_files_def DataFilePath_def lead_lines find_str_def
      stof_dec_def isspace_def isdigit_def digit_value_def)

lemma lead_closest: "Closest [0.5, 0.6, 0.8] (662 / 1000) = Inr 1"
  by (simp add: Closest_def Closest_lb_def Closest_ub_def lower_bound_def upper_bound_def
      deref_def in_bounds_def)

lemma lead_coefficient: "MassAttenCoeff stof_dec lead_files ''Lead'' 662 = Inr 0.113"
  using lead_closest by (simp add: MassAttenCoeff_def lead_table deref_def in_bounds_def)

lemma lead_transmit:
  "Transmit stof_dec lead_files ''Lead'' ''1.0'' 662 = Inr (exp (- 1.28255))"
  by (simp add: Transmit_def stof_dec_1 lead_density lead_coefficient)

lemma lead_macro_lines:
  "script_lines lead_files [''./CalcAtten'', ''macro.txt''] =
     [''Gamma(keV): 662'', ''Shield(type,cm): Lead,1.0'']"
  by (simp add: script_lines_def lead_files_def getlines_def)

lemma gamma_line: "macro_line stof_dec lead_files st ''Gamma(keV): 662'' = Inr (st\<lparr>beam_E := 662\<rparr>)"
  by (simp add: macro_line_def find_str_def stof_dec_662)

lemma shield_line_label: "label ''Shield(type,cm): Lead,1.0'' = Some ''Shield(type,cm):''"
  by (simp add: label_def find_str_def)

lemma shield_line_args:
  "shield_material ''Shield(type,cm): Lead,1.0'' = ''Lead'' \<and>
   shield_thickness ''Shield(type,cm): Lead,1.0'' = ''1.0''"
  by (simp add: shield_material_def shield_thickness_def argument_def find_str_def)

lemma lead_main:
  "main stof_dec lead_files [''./CalcAtten'', ''macro.txt''] =
     Inr \<lparr>beam_I = exp (- 1.28255), beam_E = 662\<rparr>"
proof -
  have "main stof_dec lead_files [''./CalcAtten'', ''macro.txt''] =
          macro_loop stof_dec lead_files beam_init [''Gamma(keV): 662'', ''Shield(type,cm): Lead,1.0'']"
    using lead_macro_lines by (simp add: main_def script_lines_def lead_files_def)
  then show ?thesis
    by (simp add: gamma_line macro_line_shield [OF shield_line_label] shield_line_args
        lead_transmit beam_init_def I_init_def)
qed

lemma tin_lines: "getlines tin_data = [''Density(g/cm^3): 7.31'', ''MAC:0.5'']"
  by (simp add: getlines_def tin_data_def)

lemma tin_density: "Density stof_dec broken_files ''Tin'' = Inr 7.31"
  by (simp add: Density_def broken_files_def DataFilePath_def tin_lines find_str_def
      stof_dec_def isspace_def isdigit_def digit_value_def)

lemma tin_coefficient:
  "MassAttenCoeff stof_dec broken_files ''Tin'' 662 = Inl UnexpectedDataFormat"
  by (simp add: MassAttenCoeff_def MAC_table_def broken_files_def DataFilePath_def tin_lines
      find_str_def)

lemma tin_transmit: "Transmit stof_dec broken_files ''Tin'' ''1.0'' 662 = Inl UnexpectedDataFormat"
  by (simp add: Transmit_def stof_dec_1 tin_density tin_coefficient)

lemma broken_main:
  "main stof_dec broken_files [''./CalcAtten'', ''macro.txt''] = Inl UnexpectedMacroFormat"
  by (simp add: main_def broken_files_def getlines_def macro_line_def find_str_def)

subsection \<open>The underflow of \<^verbatim>\<open>exp\<close>\<close>









subsection \<open>Claims about \<^verbatim>\<open>Transmit\<close>\<close>

text \<open>
  \<^bold>\<open>C1\<close>. For a material whose data file yields the density \<open>rho\<close> and the table
  \<open>(Es, MACs)\<close>, a thickness string that parses to \<open>t\<close>, and any energy \<open>En\<close> in keV,
  \<^verbatim>\<open>Transmit\<close> returns \<open>exp (- c * rho * t)\<close> where \<open>c\<close> is the entry of \<open>MACs\<close> at the index
  that \<^verbatim>\<open>Closest\<close> returns for \<open>Es\<close> and \<open>En / 1000\<close>. The two vectors have the same length, so
  the index is inside \<open>MACs\<close> whenever \<^verbatim>\<open>Closest\<close> returns one; when a read of
  \<^verbatim>\<open>Closest\<close> is outside the vector, neither \<^verbatim>\<open>Closest\<close> nor \<^verbatim>\<open>Transmit\<close> has a result.
\<close>

theorem Transmit_is_exponential_attenuation:
  assumes "Density stof fs material = Inr rho"
    and "MAC_table stof fs material = Inr (Es, MACs)"
    and "stof thickness = Some t"
  shows "length MACs = length Es \<and>
         Transmit stof fs material thickness En =
           (case Closest Es (En / 1000) of
              Inl e \<Rightarrow> Inl e
            | Inr i \<Rightarrow> Inr (exp (- (MACs ! nat i * rho * t))))"
proof -
  have len: "length Es = length MACs"
  proof (cases "fs (DataFilePath material)")
    case None
    then show ?thesis using assms(2) by (simp add: MAC_table_def)
  next
    case (Some content)
    then have "MAC_loop stof (getlines content) ([], []) = Inr (Es, MACs)"
      using assms(2) by (simp add: MAC_table_def)
    from MAC_loop_lengths [OF this] show ?thesis by simp
  qed
  have "MassAttenCoeff stof fs material En =
          (case Closest Es (En / 1000) of Inl e \<Rightarrow> Inl e | Inr i \<Rightarrow> Inr (MACs ! nat i))"
  proof (cases "Closest Es (En / 1000)")
    case (Inl e)
    then show ?thesis using assms(2) by (simp add: MassAttenCoeff_def)
  next
    case (Inr i)
    then have "in_bounds Es i" by (rule Closest_Inr_in_bounds)
    then have "in_bounds MACs i" using len by (simp add: in_bounds_def)
    then show ?thesis
      using Inr assms(2) \<open>in_bounds Es i\<close> by (simp add: MassAttenCoeff_def deref_def)
  qed
  then show ?thesis
    using assms(1,3) len by (simp add: Transmit_def split: sum.splits)
qed

theorem Transmit_is_exponential_attenuation_witness:
  "Density stof_dec lead_files ''Lead'' = Inr 11.35 \<and>
   MAC_table stof_dec lead_files ''Lead'' = Inr ([0.5, 0.6, 0.8], [0.1614, 0.113, 0.0887]) \<and>
   stof_dec ''1.0'' = Some 1 \<and>
   Closest [0.5, 0.6, 0.8] (662 / 1000) = Inr 1 \<and>
   Transmit stof_dec lead_files ''Lead'' ''1.0'' 662 = Inr (exp (- (0.113 * 11.35 * 1))) \<and>
   Transmit stof_dec lead_files ''Lead'' ''1.0'' 0 = Inl OutOfBoundsRead"
proof -
  have z: "Closest [0.5, 0.6, 0.8] (0 / 1000) = Inl OutOfBoundsRead"
    by (simp add: Closest_def Closest_lb_def Closest_ub_def lower_bound_def upper_bound_def
      deref_def in_bounds_def)
  show ?thesis
    using Transmit_is_exponential_attenuation [OF lead_density lead_table stof_dec_1, of 662]
      Transmit_is_exponential_attenuation [OF lead_density lead_table stof_dec_1, of 0] lead_closest z
    by (simp add: lead_density lead_table stof_dec_1)
qed




subsection \<open>Claims about the command script\<close>

text \<open>
  \<^bold>\<open>C5\<close>. \<^verbatim>\<open>I_init\<close> is 1. After the loop of \<^verbatim>\<open>main\<close> has processed any lines \<open>pre\<close>
  from the initial state, \<^verbatim>\<open>I\<close> is \<^verbatim>\<open>I_init\<close> times the product of the transmitted
  fractions of the shielding commands among them, and so is the final \<^verbatim>\<open>I\<close> of a run of
  \<^verbatim>\<open>main\<close> that returns. With no shielding command \<^verbatim>\<open>I\<close> stays \<^verbatim>\<open>I_init\<close>. Processing the
  same shielding command twice, with fraction \<open>T\<close>, multiplies \<^verbatim>\<open>I\<close> by \<open>T\<close> twice.
\<close>

theorem intensity_is_product_of_fractions:
  "I_init = 1 \<and>
   (macro_loop stof fs beam_init pre = Inr st \<longrightarrow>
      beam_I st = I_init * prod_list (shield_fractions stof fs 0 pre)) \<and>
   (main stof fs argv = Inr st \<longrightarrow>
      beam_I st = I_init * prod_list (shield_fractions stof fs 0 (script_lines fs argv))) \<and>
   (macro_loop stof fs beam_init pre = Inr st \<and>
    (\<forall>l \<in> set pre. label l \<noteq> Some ''Shield(type,cm):'') \<longrightarrow> beam_I st = I_init) \<and>
   (label l = Some ''Shield(type,cm):'' \<and>
    Transmit stof fs (shield_material l) (shield_thickness l) (beam_E s0) = Inr T \<longrightarrow>
      macro_loop stof fs s0 [l, l] = Inr (s0\<lparr>beam_I := beam_I s0 * T * T\<rparr>))"
proof -
  have loop: "beam_I st' = I_init * prod_list (shield_fractions stof fs 0 ls)"
    if "macro_loop stof fs beam_init ls = Inr st'" for ls st'
    using macro_loop_intensity [OF that] by (simp add: beam_init_def)
  have 1: "I_init = 1" by (simp add: I_init_def)
  have 3: "beam_I st = I_init * prod_list (shield_fractions stof fs 0 (script_lines fs argv))"
    if m: "main stof fs argv = Inr st"
  proof (cases "fs (argv ! 1)")
    case None
    then show ?thesis using m by (auto simp: main_def script_lines_def beam_init_def split: if_splits)
  next
    case (Some content)
    then have "macro_loop stof fs beam_init (getlines content) = Inr st"
      using m by (auto simp: main_def split: if_splits)
    then show ?thesis using loop Some by (simp add: script_lines_def)
  qed
  have 4: "beam_I st = I_init"
    if "macro_loop stof fs beam_init pre = Inr st"
      and "\<forall>l \<in> set pre. label l \<noteq> Some ''Shield(type,cm):''"
    using loop [OF that(1)] shield_fractions_no_shield [OF that(2)] by simp
  have 5: "macro_loop stof fs s0 [l, l] = Inr (s0\<lparr>beam_I := beam_I s0 * T * T\<rparr>)"
    if "label l = Some ''Shield(type,cm):''"
      and "Transmit stof fs (shield_material l) (shield_thickness l) (beam_E s0) = Inr T"
    using that by (simp add: macro_line_shield)
  show ?thesis using 1 loop 3 4 5 by blast
qed

theorem intensity_is_product_of_fractions_witness:
  "main stof_dec lead_files [''./CalcAtten'', ''macro.txt''] =
     Inr \<lparr>beam_I = exp (- 1.28255), beam_E = 662\<rparr> \<and>
   exp (- 1.28255) =
     I_init * prod_list (shield_fractions stof_dec lead_files 0
       (script_lines lead_files [''./CalcAtten'', ''macro.txt''])) \<and>
   macro_loop stof_dec lead_files beam_init [''Gamma(keV): 662''] =
     Inr \<lparr>beam_I = 1, beam_E = 662\<rparr> \<and>
   label ''Gamma(keV): 662'' \<noteq> Some ''Shield(type,cm):'' \<and>
   label ''Shield(type,cm): Lead,1.0'' = Some ''Shield(type,cm):'' \<and>
   Transmit stof_dec lead_files ''Lead'' ''1.0'' 662 = Inr (exp (- 1.28255)) \<and>
   macro_loop stof_dec lead_files \<lparr>beam_I = 1, beam_E = 662\<rparr>
     [''Shield(type,cm): Lead,1.0'', ''Shield(type,cm): Lead,1.0''] =
     Inr \<lparr>beam_I = exp (- 1.28255) * exp (- 1.28255), beam_E = 662\<rparr>"
proof -
  have g: "macro_loop stof_dec lead_files beam_init [''Gamma(keV): 662''] =
     Inr \<lparr>beam_I = 1, beam_E = 662\<rparr>"
    by (simp add: gamma_line beam_init_def I_init_def)
  have n: "label ''Gamma(keV): 662'' \<noteq> Some ''Shield(type,cm):''"
    by (simp add: label_def find_str_def)
  show ?thesis
    using intensity_is_product_of_fractions [of stof_dec lead_files "[''Gamma(keV): 662'']" "\<lparr>beam_I = exp (- 1.28255), beam_E = 662\<rparr>"
        "[''./CalcAtten'', ''macro.txt'']" "''Shield(type,cm): Lead,1.0''"
        "\<lparr>beam_I = 1, beam_E = 662\<rparr>" "exp (- 1.28255)"]
      lead_main g n shield_line_label shield_line_args lead_transmit
    by simp
qed

text \<open>
  \<^bold>\<open>C7\<close>. A line whose label is neither \<^verbatim>\<open>Gamma(keV):\<close> nor \<^verbatim>\<open>Shield(type,cm):\<close>
  is processed without error, leaves \<^verbatim>\<open>I\<close> and \<^verbatim>\<open>E\<close> as they were, and the loop goes on
  with the next line.
\<close>

theorem unrecognised_line_is_skipped:
  assumes "label line = Some l" and "l \<noteq> ''Gamma(keV):''" and "l \<noteq> ''Shield(type,cm):''"
  shows "macro_line stof fs st line = Inr st \<and>
         macro_loop stof fs st (line # rest) = macro_loop stof fs st rest"
  using macro_line_other [OF assms] by simp

theorem unrecognised_line_is_skipped_witness:
  "label ''Neutron(MeV): 2'' = Some ''Neutron(MeV):'' \<and>
   ''Neutron(MeV):'' \<noteq> ''Gamma(keV):'' \<and> ''Neutron(MeV):'' \<noteq> ''Shield(type,cm):'' \<and>
   macro_line stof_dec lead_files beam_init ''Neutron(MeV): 2'' = Inr beam_init \<and>
   macro_loop stof_dec lead_files beam_init [''Neutron(MeV): 2''] = Inr beam_init"
proof -
  have l: "label ''Neutron(MeV): 2'' = Some ''Neutron(MeV):''"
    by (simp add: label_def find_str_def)
  show ?thesis
    using unrecognised_line_is_skipped [OF l, of stof_dec lead_files beam_init "[]"] l by simp
qed

text \<open>
  \<^bold>\<open>C8\<close>. A line without a space character is fatal. In the command script the loop
  body fails with the macro-format error; a script that holds such a line never runs to
  completion, it fails with that error as soon as the lines before it have been processed,
  and \<^verbatim>\<open>main\<close> exits with a non-zero status. In a data file the table loop never completes;
  it fails with the data-format error as soon as the lines before have been read, and so
  does the density loop when no earlier line is a density record. \<^verbatim>\<open>MassAttenCoeff\<close> and
  \<^verbatim>\<open>Transmit\<close> on a material whose file holds such a line end in an error.
\<close>

theorem line_without_space_is_fatal:
  assumes "CHR '' '' \<notin> set line"
  shows "macro_line stof fs st line = Inl UnexpectedMacroFormat \<and>
         (\<exists>e. macro_loop stof fs st (pre @ line # rest) = Inl e) \<and>
         (macro_loop stof fs st pre = Inr st' \<longrightarrow>
            macro_loop stof fs st (pre @ line # rest) = Inl UnexpectedMacroFormat) \<and>
         (2 \<le> length argv \<and> fs (argv ! 1) = Some script \<and> line \<in> set (getlines script) \<longrightarrow>
            exits_nonzero (main stof fs argv)) \<and>
         (\<exists>e. MAC_loop stof (pre @ line # rest) tab = Inl e) \<and>
         (MAC_loop stof pre tab = Inr tab' \<longrightarrow>
            MAC_loop stof (pre @ line # rest) tab = Inl UnexpectedDataFormat) \<and>
         ((\<forall>l \<in> set pre. label l \<noteq> None \<and> label l \<noteq> Some ''Density(g/cm^3):'') \<longrightarrow>
            Density_loop stof (pre @ line # rest) = Inl UnexpectedDataFormat) \<and>
         (fs (DataFilePath material) = Some content \<and> line \<in> set (getlines content) \<longrightarrow>
            (\<exists>e. MassAttenCoeff stof fs material En = Inl e) \<and>
            (\<exists>e. Transmit stof fs material thickness En = Inl e))"
proof -
  have 1: "macro_line stof fs st line = Inl UnexpectedMacroFormat" for st
    using assms by (rule macro_line_no_space)
  have loop: "macro_loop stof fs s (xs @ line # ys) =
                (case macro_loop stof fs s xs of Inl e \<Rightarrow> Inl e | Inr _ \<Rightarrow> Inl UnexpectedMacroFormat)"
    for s xs ys
    by (simp add: macro_loop_append 1 split: sum.splits)
  have 2: "\<exists>e. macro_loop stof fs s (xs @ line # ys) = Inl e" for s xs ys
    by (simp add: loop split: sum.splits)
  have 3: "macro_loop stof fs st (pre @ line # rest) = Inl UnexpectedMacroFormat"
    if "macro_loop stof fs st pre = Inr st'"
    using that by (simp add: loop)
  have 4: "exits_nonzero (main stof fs argv)"
    if "2 \<le> length argv" and "fs (argv ! 1) = Some script" and "line \<in> set (getlines script)"
  proof -
    from that(3) obtain xs ys where "getlines script = xs @ line # ys"
      by (auto dest: split_list)
    then obtain e where "macro_loop stof fs beam_init (getlines script) = Inl e"
      using 2 [of beam_init xs ys] by auto
    then show ?thesis using that(1,2) by (simp add: main_def exits_nonzero_def)
  qed
  have mac: "MAC_loop stof (xs @ line # ys) t =
               (case MAC_loop stof xs t of Inl e \<Rightarrow> Inl e | Inr _ \<Rightarrow> Inl UnexpectedDataFormat)"
    for xs ys t
    using MAC_loop_no_space [OF assms] by (simp add: MAC_loop_append split: sum.splits)
  have 5: "\<exists>e. MAC_loop stof (xs @ line # ys) t = Inl e" for xs ys t
    by (simp add: mac split: sum.splits)
  have 6: "MAC_loop stof (pre @ line # rest) tab = Inl UnexpectedDataFormat"
    if "MAC_loop stof pre tab = Inr tab'"
    using that by (simp add: mac)
  have 7: "Density_loop stof (pre @ line # rest) = Inl UnexpectedDataFormat"
    if "\<forall>l \<in> set pre. label l \<noteq> None \<and> label l \<noteq> Some ''Density(g/cm^3):''"
    using assms that by (rule Density_loop_no_space)
  have 8: "(\<exists>e. MassAttenCoeff stof fs material En = Inl e) \<and>
           (\<exists>e. Transmit stof fs material thickness En = Inl e)"
    if "fs (DataFilePath material) = Some content" and "line \<in> set (getlines content)"
  proof -
    from that(2) obtain xs ys where "getlines content = xs @ line # ys"
      by (auto dest: split_list)
    then obtain e where "MAC_loop stof (getlines content) ([], []) = Inl e"
      using 5 [of xs ys "([], [])"] by auto
    then have "MAC_table stof fs material = Inl e"
      using that(1) by (simp add: MAC_table_def)
    then have m: "MassAttenCoeff stof fs material En = Inl e"
      by (simp add: MassAttenCoeff_def)
    then have "\<exists>e. Transmit stof fs material thickness En = Inl e"
      by (simp add: Transmit_def split: option.splits sum.splits)
    then show ?thesis using m by simp
  qed
  show ?thesis using 1 2 3 4 5 6 7 8 by blast
qed

theorem line_without_space_is_fatal_witness:
  "CHR '' '' \<notin> set ''Gamma(keV):662'' \<and> CHR '' '' \<notin> set ''MAC:0.5'' \<and>
   macro_line stof_dec lead_files beam_init ''Gamma(keV):662'' = Inl UnexpectedMacroFormat \<and>
   macro_loop stof_dec lead_files beam_init [''Neutron(MeV): 2'', ''Gamma(keV):662''] =
     Inl UnexpectedMacroFormat \<and>
   MAC_loop stof_dec [''Density(g/cm^3): 11.35'', ''Gamma(keV):662''] ([], []) =
     Inl UnexpectedDataFormat \<and>
   Density_loop stof_dec [''Gamma(keV):662'', ''Density(g/cm^3): 11.35''] =
     Inl UnexpectedDataFormat \<and>
   main stof_dec broken_files [''./CalcAtten'', ''macro.txt''] = Inl UnexpectedMacroFormat \<and>
   exits_nonzero (main stof_dec broken_files [''./CalcAtten'', ''macro.txt'']) \<and>
   Density stof_dec broken_files ''Tin'' = Inr 7.31 \<and>
   MassAttenCoeff stof_dec broken_files ''Tin'' 662 = Inl UnexpectedDataFormat \<and>
   Transmit stof_dec broken_files ''Tin'' ''1.0'' 662 = Inl UnexpectedDataFormat"
proof -
  have n: "CHR '' '' \<notin> set ''Gamma(keV):662''" by simp
  have n': "CHR '' '' \<notin> set ''MAC:0.5''" by simp
  have l: "label ''Neutron(MeV): 2'' = Some ''Neutron(MeV):''"
    by (simp add: label_def find_str_def)
  have p: "macro_loop stof_dec lead_files beam_init [''Neutron(MeV): 2''] = Inr beam_init"
    using macro_line_other [OF l, of stof_dec lead_files beam_init] by simp
  have m: "MAC_loop stof_dec [''Density(g/cm^3): 11.35''] ([], []) = Inr ([], [])"
    by (simp add: find_str_def)
  have s: "broken_files ([''./CalcAtten'', ''macro.txt''] ! 1) = Some ''Gamma(keV):662'' \<and>
           ''Gamma(keV):662'' \<in> set (getlines ''Gamma(keV):662'')"
    by (simp add: broken_files_def getlines_def)
  have e: "exits_nonzero (main stof_dec broken_files [''./CalcAtten'', ''macro.txt''])"
    using line_without_space_is_fatal [OF n, of stof_dec broken_files beam_init "[]" "[]"
        beam_init "[''./CalcAtten'', ''macro.txt'']" "''Gamma(keV):662''"] s
    by simp
  show ?thesis
    using line_without_space_is_fatal [OF n, of stof_dec lead_files beam_init
        "[''Neutron(MeV): 2'']" "[]" beam_init "[]" "[]" "([], [])" "([], [])"]
      line_without_space_is_fatal [OF n, of stof_dec lead_files beam_init
        "[]" "[''Density(g/cm^3): 11.35'']" beam_init "[]" "[]" "([], [])" "([], [])"]
      line_without_space_is_fatal [OF n, of stof_dec lead_files beam_init
        "[''Density(g/cm^3): 11.35'']" "[]" beam_init "[]" "[]" "([], [])" "([], [])"]
      n n' p m e broken_main tin_density tin_coefficient tin_transmit
    by simp
qed

text \<open>
  \<^bold>\<open>C10\<close>. \<^verbatim>\<open>E\<close> starts at 0. When no line before a shielding command is an energy
  command, \<^verbatim>\<open>E\<close> is still 0 at that command, and the loop on the script up to and past
  that line is decided by \<^verbatim>\<open>Transmit\<close> at energy 0: its error ends the run, its fraction
  multiplies \<^verbatim>\<open>I\<close> before the remaining lines. \<^verbatim>\<open>Transmit\<close> at energy 0 parses the
  thickness, reads the density and the table, and runs \<^verbatim>\<open>Closest\<close> on the tabulated
  energies with the query 0; the fraction is the exponential for the coefficient at the
  index \<^verbatim>\<open>Closest\<close> returns. When every tabulated energy is positive the query is below
  all of them: \<open>lb\<close> is one before the first entry, the lookup reads outside the vector,
  and the run has no result for that layer.
\<close>

theorem shield_before_gamma_uses_energy_zero:
  assumes "\<forall>l \<in> set pre. label l \<noteq> Some ''Gamma(keV):''"
    and "macro_loop stof fs beam_init pre = Inr st"
    and "label line = Some ''Shield(type,cm):''"
  shows "beam_E beam_init = 0 \<and> beam_E st = 0 \<and>
         macro_line stof fs st line =
           (case Transmit stof fs (shield_material line) (shield_thickness line) 0 of
              Inl e \<Rightarrow> Inl e
            | Inr T \<Rightarrow> Inr (st\<lparr>beam_I := beam_I st * T\<rparr>)) \<and>
         macro_loop stof fs beam_init (pre @ line # rest) =
           (case Transmit stof fs (shield_material line) (shield_thickness line) 0 of
              Inl e \<Rightarrow> Inl e
            | Inr T \<Rightarrow> macro_loop stof fs (st\<lparr>beam_I := beam_I st * T\<rparr>) rest) \<and>
         Transmit stof fs (shield_material line) (shield_thickness line) 0 =
           (case stof (shield_thickness line) of
              None \<Rightarrow> Inl StofThrew
            | Some t \<Rightarrow>
                (case Density stof fs (shield_material line) of
                   Inl e \<Rightarrow> Inl e
                 | Inr rho \<Rightarrow>
                     (case MAC_table stof fs (shield_material line) of
                        Inl e \<Rightarrow> Inl e
                      | Inr tab \<Rightarrow>
                          (case Closest (fst tab) 0 of
                             Inl e \<Rightarrow> Inl e
                           | Inr i \<Rightarrow> Inr (exp (- (snd tab ! nat i * rho * t))))))) \<and>
         MassAttenCoeff stof fs (shield_material line) 0 =
           (case MAC_table stof fs (shield_material line) of
              Inl e \<Rightarrow> Inl e
            | Inr tab \<Rightarrow>
                (case Closest (fst tab) 0 of
                   Inl e \<Rightarrow> Inl e
                 | Inr i \<Rightarrow>
                     (case deref (fst tab) i of
                        Inl e \<Rightarrow> Inl e
                      | Inr _ \<Rightarrow> deref (snd tab) i))) \<and>
         (MAC_table stof fs (shield_material line) = Inr (Es, MACs) \<and> (\<forall>e \<in> set Es. 0 < e) \<longrightarrow>
            Closest_lb Es 0 = - 1 \<and>
            MassAttenCoeff stof fs (shield_material line) (beam_E st) = Inl OutOfBoundsRead) \<and>
         (stof (shield_thickness line) = Some t \<and>
          Density stof fs (shield_material line) = Inr rho \<and>
          MAC_table stof fs (shield_material line) = Inr (Es, MACs) \<longrightarrow>
            macro_loop stof fs beam_init (pre @ line # rest) =
              (case Closest Es 0 of
                 Inl e \<Rightarrow> Inl e
               | Inr i \<Rightarrow>
                   macro_loop stof fs
                     (st\<lparr>beam_I := beam_I st * exp (- (MACs ! nat i * rho * t))\<rparr>) rest) \<and>
            ((\<forall>e \<in> set Es. 0 < e) \<longrightarrow>
               macro_loop stof fs beam_init (pre @ line # rest) = Inl OutOfBoundsRead))"
proof -
  have e0: "beam_E beam_init = 0" by (simp add: beam_init_def)
  have e: "beam_E st = 0" using macro_loop_energy [OF assms(1,2)] e0 by simp
  have l: "macro_line stof fs st line =
           (case Transmit stof fs (shield_material line) (shield_thickness line) 0 of
              Inl e \<Rightarrow> Inl e
            | Inr T \<Rightarrow> Inr (st\<lparr>beam_I := beam_I st * T\<rparr>))"
    using macro_line_shield [OF assms(3), of stof fs st] e by simp
  have loop: "macro_loop stof fs beam_init (pre @ line # rest) =
           (case Transmit stof fs (shield_material line) (shield_thickness line) 0 of
              Inl e \<Rightarrow> Inl e
            | Inr T \<Rightarrow> macro_loop stof fs (st\<lparr>beam_I := beam_I st * T\<rparr>) rest)"
    using assms(2) l by (simp add: macro_loop_append split: sum.splits)
  have tr: "Transmit stof fs (shield_material line) (shield_thickness line) 0 =
           (case stof (shield_thickness line) of
              None \<Rightarrow> Inl StofThrew
            | Some t \<Rightarrow>
                (case Density stof fs (shield_material line) of
                   Inl e \<Rightarrow> Inl e
                 | Inr rho \<Rightarrow>
                     (case MAC_table stof fs (shield_material line) of
                        Inl e \<Rightarrow> Inl e
                      | Inr tab \<Rightarrow>
                          (case Closest (fst tab) 0 of
                             Inl e \<Rightarrow> Inl e
                           | Inr i \<Rightarrow> Inr (exp (- (snd tab ! nat i * rho * t)))))))"
    using Transmit_via_Closest [of stof fs "shield_material line" "shield_thickness line" 0]
    by (simp cong: option.case_cong sum.case_cong)
  have m: "MassAttenCoeff stof fs (shield_material line) 0 =
           (case MAC_table stof fs (shield_material line) of
              Inl e \<Rightarrow> Inl e
            | Inr tab \<Rightarrow>
                (case Closest (fst tab) 0 of
                   Inl e \<Rightarrow> Inl e
                 | Inr i \<Rightarrow>
                     (case deref (fst tab) i of
                        Inl e \<Rightarrow> Inl e
                      | Inr _ \<Rightarrow> deref (snd tab) i)))"
    by (simp add: MassAttenCoeff_def split: sum.splits prod.splits)
  have p: "Closest_lb Es 0 = - 1 \<and>
           MassAttenCoeff stof fs (shield_material line) (beam_E st) = Inl OutOfBoundsRead"
    if t: "MAC_table stof fs (shield_material line) = Inr (Es, MACs)" and pos: "\<forall>e \<in> set Es. 0 < e"
    using Closest_lb_below_positive [OF pos] t e by (simp add: MassAttenCoeff_def)
  have q: "macro_loop stof fs beam_init (pre @ line # rest) =
              (case Closest Es 0 of
                 Inl e \<Rightarrow> Inl e
               | Inr i \<Rightarrow>
                   macro_loop stof fs
                     (st\<lparr>beam_I := beam_I st * exp (- (MACs ! nat i * rho * t))\<rparr>) rest) \<and>
            ((\<forall>e \<in> set Es. 0 < e) \<longrightarrow>
               macro_loop stof fs beam_init (pre @ line # rest) = Inl OutOfBoundsRead)"
    if "stof (shield_thickness line) = Some t"
      and "Density stof fs (shield_material line) = Inr rho"
      and "MAC_table stof fs (shield_material line) = Inr (Es, MACs)"
  proof -
    have 1: "macro_loop stof fs beam_init (pre @ line # rest) =
              (case Closest Es 0 of
                 Inl e \<Rightarrow> Inl e
               | Inr i \<Rightarrow>
                   macro_loop stof fs
                     (st\<lparr>beam_I := beam_I st * exp (- (MACs ! nat i * rho * t))\<rparr>) rest)"
      using loop tr that by (simp split: sum.splits)
    then show ?thesis using Closest_lb_below_positive [of Es] by simp
  qed
  show ?thesis using e0 e l loop tr m p q by blast
qed

theorem shield_before_gamma_uses_energy_zero_witness:
  "macro_loop stof_dec lead_files beam_init [''Neutron(MeV): 2''] = Inr beam_init \<and>
   label ''Neutron(MeV): 2'' \<noteq> Some ''Gamma(keV):'' \<and>
   label ''Shield(type,cm): Lead,1.0'' = Some ''Shield(type,cm):'' \<and>
   stof_dec ''1.0'' = Some 1 \<and>
   Density stof_dec lead_files ''Lead'' = Inr 11.35 \<and>
   MAC_table stof_dec lead_files ''Lead'' = Inr ([0.5, 0.6, 0.8], [0.1614, 0.113, 0.0887]) \<and>
   beam_E beam_init = 0 \<and>
   Closest_lb [0.5, 0.6, 0.8] 0 = - 1 \<and>
   MassAttenCoeff stof_dec lead_files ''Lead'' 0 = Inl OutOfBoundsRead \<and>
   Transmit stof_dec lead_files ''Lead'' ''1.0'' 0 = Inl OutOfBoundsRead \<and>
   macro_line stof_dec lead_files beam_init ''Shield(type,cm): Lead,1.0'' = Inl OutOfBoundsRead \<and>
   macro_loop stof_dec lead_files beam_init
     [''Neutron(MeV): 2'', ''Shield(type,cm): Lead,1.0'', ''Gamma(keV): 662''] =
     Inl OutOfBoundsRead"
proof -
  have l: "label ''Neutron(MeV): 2'' = Some ''Neutron(MeV):''"
    by (simp add: label_def find_str_def)
  have p: "macro_loop stof_dec lead_files beam_init [''Neutron(MeV): 2''] = Inr beam_init"
    using macro_line_other [OF l, of stof_dec lead_files beam_init] by simp
  have a: "\<forall>l \<in> set [''Neutron(MeV): 2'']. label l \<noteq> Some ''Gamma(keV):''"
    using l by simp
  have pos: "\<forall>e \<in> set [0.5, 0.6, 0.8 :: real]. 0 < e" by simp
  have z: "Closest [0.5, 0.6, 0.8] 0 = Inl OutOfBoundsRead"
    by (simp add: Closest_def Closest_lb_def Closest_ub_def lower_bound_def upper_bound_def
        deref_def in_bounds_def)
  note c = shield_before_gamma_uses_energy_zero [OF a p shield_line_label,
      of "[''Gamma(keV): 662'']" "[0.5, 0.6, 0.8]" "[0.1614, 0.113, 0.0887]" 1 "11.35"]
  have 1: "beam_E beam_init = 0" using c by (rule conjunct1)
  have t: "Transmit stof_dec lead_files ''Lead'' ''1.0'' 0 = Inl OutOfBoundsRead"
    using c [THEN conjunct2, THEN conjunct2, THEN conjunct2, THEN conjunct2, THEN conjunct1] z
    by (simp add: shield_line_args stof_dec_1 lead_density lead_table)
  have 2: "macro_line stof_dec lead_files beam_init ''Shield(type,cm): Lead,1.0'' =
             Inl OutOfBoundsRead"
    using c [THEN conjunct2, THEN conjunct2, THEN conjunct1] t
    by (simp add: shield_line_args)
  have 3: "Closest_lb [0.5, 0.6, 0.8] 0 = - 1 \<and>
           MassAttenCoeff stof_dec lead_files ''Lead'' 0 = Inl OutOfBoundsRead"
    using c [THEN conjunct2, THEN conjunct2, THEN conjunct2, THEN conjunct2, THEN conjunct2,
        THEN conjunct2, THEN conjunct1] lead_table pos 1
    by (simp add: shield_line_args)
  have 4: "macro_loop stof_dec lead_files beam_init
             [''Neutron(MeV): 2'', ''Shield(type,cm): Lead,1.0'', ''Gamma(keV): 662''] =
             Inl OutOfBoundsRead"
    using c [THEN conjunct2, THEN conjunct2, THEN conjunct2, THEN conjunct1] t
    by (simp add: shield_line_args)
  show ?thesis
    using 1 2 3 4 t l p shield_line_label lead_table stof_dec_1 lead_density by simp
qed

text \<open>
  \<^bold>\<open>C6\<close> (the code departs from the claim). The claim: every fatal error, and in
  particular a command script or a data file that cannot be opened, ends the process with
  a non-zero status and a message. \<^verbatim>\<open>Density\<close> and \<^verbatim>\<open>MassAttenCoeff\<close> do so: their
  \<^verbatim>\<open>if (dataFile.is_open())\<close> has an \<^verbatim>\<open>else\<close> that prints ``Error: File not open'' and
  exits. The same test in \<^verbatim>\<open>main\<close> has no \<^verbatim>\<open>else\<close>: when the macro file cannot be opened,
  \<^verbatim>\<open>main\<close> prints nothing and returns 0 with the initial intensity.
\<close>

theorem main_unopened_macro_returns_zero:
  "main stof (\<lambda>_. None) [prog, macro] = Inr beam_init \<and>
   \<not> exits_nonzero (main stof (\<lambda>_. None) [prog, macro]) \<and>
   Density stof (\<lambda>_. None) absorber = Inl FileNotOpen \<and>
   MassAttenCoeff stof (\<lambda>_. None) absorber En = Inl FileNotOpen \<and>
   message FileNotOpen = Some ''Error: File not open''"
  by (simp add: main_def exits_nonzero_def Density_def MassAttenCoeff_def MAC_table_def)

end
